theory Spec2Isabelle
  imports Complex_Main "HOL-Library.AList" "HOL-Library.Char_ord" "HOL-Library.List_Lexorder"
    "HOL-Library.Log_Nat" "HOL-Library.Monad_Syntax"
begin

section \<open>Python values read from and written to patients.json\<close>

text \<open>
  \<^verbatim>\<open>json.load\<close> turns the file into Python values. A field of a record is a JSON
  scalar: \<^verbatim>\<open>None\<close>, a \<^verbatim>\<open>bool\<close>, an \<^verbatim>\<open>int\<close>, a \<^verbatim>\<open>float\<close> or a \<^verbatim>\<open>str\<close>.
  Python's \<^verbatim>\<open>int\<close> is unbounded, so it is \<^typ>\<open>int\<close>. A Python \<^verbatim>\<open>float\<close> is a
  double; the model has the finite ones, each as the rational that is its exact
  value (infinities and NaN are outside this model). A \<^verbatim>\<open>str\<close> is a
  \<^typ>\<open>string\<close>.
\<close>

datatype scalar = PyNone | PyBool bool | PyInt int | PyFloat rat | PyStr string

text \<open>
  A Python \<^verbatim>\<open>dict\<close> with string keys keeps insertion order: an association list.
  \<^verbatim>\<open>d[k]\<close> is \<^const>\<open>map_of\<close>, \<^verbatim>\<open>d[k] = v\<close> is \<^const>\<open>AList.update\<close> (the value is
  replaced in place when the key is present and appended otherwise) and
  \<^verbatim>\<open>del d[k]\<close> is \<^const>\<open>AList.delete\<close>.
\<close>

type_synonym pydict = "(string \<times> scalar) list"

text \<open>What the elements of the loaded collection can be: a scalar or a flat record.\<close>

datatype pyobj = Scalar scalar | Dict pydict

text \<open>
  The content of patients.json: a JSON object (what \<^verbatim>\<open>create_patient\<close>,
  \<^verbatim>\<open>update_patient\<close> and \<^verbatim>\<open>delete_patient\<close> index by id) or a JSON array (what
  the loops of \<^verbatim>\<open>view_patient\<close> and \<^verbatim>\<open>sort_patients\<close> read as a list of
  records).
\<close>

datatype store = Mapping "(string \<times> pyobj) list" | Sequence "pyobj list"

datatype error =
    HTTPException nat string
  | TypeError
  | KeyError
  | AttributeError
  | ZeroDivisionError
  | OverflowError
  | ValidationError

datatype response = JSONResponse nat string

section \<open>Python floats\<close>

text \<open>
  Floats compare by their exact values, so \<^verbatim>\<open><\<close> and \<^verbatim>\<open><=\<close> on floats are those
  of \<^typ>\<open>rat\<close>. Everything else rounds. The rounding of a rational to the nearest
  double, a tie going to the even significand: 53 bits, the exponent not below
  that of the subnormal numbers, and no result from \<open>2 ^ 1024\<close> on. It is
  computed on the numerator and the denominator.
\<close>

definition pow2 :: "int \<Rightarrow> rat" where
  "pow2 e = (if 0 \<le> e then of_int (2 ^ nat e) else 1 / of_int (2 ^ nat (- e)))"

definition round_half_even_div :: "int \<Rightarrow> int \<Rightarrow> int" where
  "round_half_even_div num den =
     (let f = num div den; r = num mod den
      in if 2 * r < den then f else if den < 2 * r then f + 1
         else if even f then f else f + 1)"

text \<open>The \<open>e\<close> with \<open>2 ^ e \<le> p / q < 2 ^ (e + 1)\<close>, for positive \<open>p\<close> and \<open>q\<close>.\<close>

definition exponent :: "int \<Rightarrow> int \<Rightarrow> int" where
  "exponent p q =
     (let d = bitlen p - bitlen q
      in if (if 0 \<le> d then q * 2 ^ nat d \<le> p else q \<le> p * 2 ^ nat (- d)) then d else d - 1)"

definition nearest_double_pos :: "int \<Rightarrow> int \<Rightarrow> rat option" where
  "nearest_double_pos p q =
     (let s = max (exponent p q) (- 1022) - 52;
          n = (if s < 0 then round_half_even_div (p * 2 ^ nat (- s)) q
               else round_half_even_div p (q * 2 ^ nat s))
      in if n = 0 then Some 0
         else if 0 \<le> s \<and> 2 ^ 1024 \<le> n * 2 ^ nat s then None
         else Some (of_int n * pow2 s))"

definition nearest_double :: "rat \<Rightarrow> rat option" where
  "nearest_double x =
     (if x = 0 then Some 0
      else if 0 < x then (case quotient_of x of (p, q) \<Rightarrow> nearest_double_pos p q)
      else (case quotient_of (- x) of (p, q) \<Rightarrow> map_option uminus (nearest_double_pos p q)))"

text \<open>
  A float literal of the program, such as \<^verbatim>\<open>24.9\<close>, is the double nearest to
  the decimal written (no literal of this program is out of range).
\<close>

definition double :: "rat \<Rightarrow> rat" where
  "double x = (case nearest_double x of Some y \<Rightarrow> y | None \<Rightarrow> x)"

text \<open>
  The arithmetic of \<^verbatim>\<open>bmi\<close> is not this repository's: \<^verbatim>\<open>x ** n\<close> is the C library's
  \<^verbatim>\<open>pow\<close>, which raises in Python when it overflows; \<^verbatim>\<open>x / y\<close> with \<^verbatim>\<open>y\<close> not zero
  is the machine's division, whose result is infinite when it overflows
  (\<^const>\<open>None\<close> here, since the model has finite floats only); \<^verbatim>\<open>round(x, n)\<close> is
  CPython's. The model takes the three as a parameter.
\<close>

record float_ops =
  float_pow :: "rat \<Rightarrow> nat \<Rightarrow> error + rat"
  float_truediv :: "rat \<Rightarrow> rat \<Rightarrow> rat option"
  float_round :: "rat \<Rightarrow> nat \<Rightarrow> rat"

text \<open>
  The three operations when each is correctly rounded: the power and the
  quotient are the doubles nearest to the exact ones, and \<^verbatim>\<open>round\<close> rounds the
  exact value of its argument to \<open>n\<close> decimals, a tie going to the even digit,
  and returns the double nearest to that decimal.
\<close>

definition ieee :: float_ops where
  "ieee =
     \<lparr>float_pow = (\<lambda>x n. case nearest_double (x ^ n) of
                             None \<Rightarrow> Inl OverflowError
                           | Some y \<Rightarrow> Inr y),
      float_truediv = (\<lambda>x y. nearest_double (x / y)),
      float_round = (\<lambda>x n. case quotient_of x of
                               (p, q) \<Rightarrow>
                                 (case nearest_double
                                         (of_int (round_half_even_div (p * 10 ^ n) q) / of_int (10 ^ n)) of
                                    None \<Rightarrow> x
                                  | Some y \<Rightarrow> y))\<rparr>"

section \<open>The Patient model\<close>

record Patient =
  id' :: string
  name :: string
  city :: string
  age :: int
  gender :: string
  height :: rat
  weight :: rat

text \<open>
  \<^verbatim>\<open>bmi = self.weight/(self.height ** 2); return round(bmi,2)\<close>. The power may
  raise, and Python's division raises on a zero divisor, which the square of a
  small height is. \<^const>\<open>None\<close>: the quotient is not finite, and the model does
  not follow the computation further.
\<close>

definition bmi :: "float_ops \<Rightarrow> Patient \<Rightarrow> (error + rat) option" where
  "bmi F self =
     (case float_pow F (height self) 2 of
        Inl e \<Rightarrow> Some (Inl e)
      | Inr d \<Rightarrow>
          if d = 0 then Some (Inl ZeroDivisionError)
          else (case float_truediv F (weight self) d of
                  None \<Rightarrow> None
                | Some q \<Rightarrow> Some (Inr (float_round F q 2))))"

text \<open>
  The \<^verbatim>\<open>if\<close>/\<^verbatim>\<open>elif\<close> chain of \<^verbatim>\<open>verdict\<close>, each test reading \<^verbatim>\<open>self.bmi\<close>. The
  bounds \<^verbatim>\<open>18.5\<close>, \<^verbatim>\<open>24.9\<close> and \<^verbatim>\<open>29.9\<close> are float literals and \<^verbatim>\<open>25\<close> is an \<^verbatim>\<open>int\<close>,
  which compares with a float by value.
\<close>

definition verdict :: "float_ops \<Rightarrow> Patient \<Rightarrow> (error + string) option" where
  "verdict F self =
     (case bmi F self of
        None \<Rightarrow> None
      | Some (Inl e) \<Rightarrow> Some (Inl e)
      | Some (Inr b) \<Rightarrow>
          if b < double 18.5 then Some (Inr ''Underweight'')
          else if double 18.5 \<le> b \<and> b < double 24.9 then Some (Inr ''Normal weight'')
          else if 25 \<le> b \<and> b < double 29.9 then Some (Inr ''Overweight'')
          else Some (Inr ''Obese''))"


text \<open>
  \<^verbatim>\<open>model_dump\<close> without the id, as both \<^verbatim>\<open>exclude=["id"]\<close> and
  \<^verbatim>\<open>exclude='id'\<close> give it: the fields in the order of the class, then the two
  computed fields.
\<close>

definition model_dump_exclude_id :: "float_ops \<Rightarrow> Patient \<Rightarrow> (error + pydict) option" where
  "model_dump_exclude_id F self =
     (case bmi F self of
        None \<Rightarrow> None
      | Some (Inl e) \<Rightarrow> Some (Inl e)
      | Some (Inr b) \<Rightarrow>
          (case verdict F self of
             None \<Rightarrow> None
           | Some (Inl e) \<Rightarrow> Some (Inl e)
           | Some (Inr v) \<Rightarrow>
               Some (Inr [(''name'', PyStr (name self)),
                          (''city'', PyStr (city self)),
                          (''age'', PyInt (age self)),
                          (''gender'', PyStr (gender self)),
                          (''height'', PyFloat (height self)),
                          (''weight'', PyFloat (weight self)),
                          (''bmi'', PyFloat b),
                          (''verdict'', PyStr v)])))"

text \<open>
  \<^verbatim>\<open>Patient(**kwargs)\<close> validates every declared field. A value that already has
  the field's type is taken as it is and \<^verbatim>\<open>None\<close> is refused, since no field of
  \<^verbatim>\<open>Patient\<close> is optional. What pydantic makes of any other value (an \<^verbatim>\<open>int\<close>
  for a \<^verbatim>\<open>float\<close> field, a numeric string, a \<^verbatim>\<open>bool\<close>) is the library's
  business, not this repository's: the model takes these conversions as a
  parameter, \<^const>\<open>None\<close> meaning that the value is refused.
\<close>

record lax =
  lax_str :: "scalar \<Rightarrow> string option"
  lax_int :: "scalar \<Rightarrow> int option"
  lax_float :: "scalar \<Rightarrow> rat option"

definition validate_str :: "lax \<Rightarrow> scalar \<Rightarrow> string option" where
  "validate_str m v = (case v of PyStr s \<Rightarrow> Some s | PyNone \<Rightarrow> None | _ \<Rightarrow> lax_str m v)"

definition validate_int :: "lax \<Rightarrow> scalar \<Rightarrow> int option" where
  "validate_int m v = (case v of PyInt n \<Rightarrow> Some n | PyNone \<Rightarrow> None | _ \<Rightarrow> lax_int m v)"

definition validate_float :: "lax \<Rightarrow> scalar \<Rightarrow> rat option" where
  "validate_float m v = (case v of PyFloat r \<Rightarrow> Some r | PyNone \<Rightarrow> None | _ \<Rightarrow> lax_float m v)"

text \<open>
  Some of these conversions, those between JSON numbers, used where a concrete
  \<^typ>\<open>lax\<close> is needed: for a \<^verbatim>\<open>float\<close> field an \<^verbatim>\<open>int\<close> that a double can hold
  and a \<^verbatim>\<open>bool\<close>, for an \<^verbatim>\<open>int\<close> field a \<^verbatim>\<open>float\<close> without fractional part. The
  numeric strings that pydantic also converts are refused here.
\<close>

definition lax_numbers :: lax where
  "lax_numbers =
     \<lparr>lax_str = (\<lambda>v. None),
      lax_int = (\<lambda>v. case v of
                   PyFloat r \<Rightarrow> if of_int \<lfloor>r\<rfloor> = r then Some \<lfloor>r\<rfloor> else None
                 | _ \<Rightarrow> None),
      lax_float = (\<lambda>v. case v of
                     PyInt n \<Rightarrow> nearest_double (of_int n)
                   | PyBool b \<Rightarrow> Some (if b then 1 else 0)
                   | _ \<Rightarrow> None)\<rparr>"

text \<open>
  The fields are required (\<^verbatim>\<open>Field(...)\<close>), keys that are not fields are ignored,
  and the bounds are those of the class: \<^verbatim>\<open>gt=0, lt=120\<close> for the age, \<^verbatim>\<open>gt=0\<close>
  for height and weight. \<^verbatim>\<open>gender\<close> is annotated \<^verbatim>\<open>str\<close>; the \<^verbatim>\<open>Literal\<close> beside
  it is metadata that constrains nothing.
\<close>

definition Patient_init :: "lax \<Rightarrow> pydict \<Rightarrow> error + Patient" where
  "Patient_init m kwargs =
     (case do {
        i \<leftarrow> Option.bind (map_of kwargs ''id'') (validate_str m);
        n \<leftarrow> Option.bind (map_of kwargs ''name'') (validate_str m);
        c \<leftarrow> Option.bind (map_of kwargs ''city'') (validate_str m);
        a \<leftarrow> Option.bind (map_of kwargs ''age'') (validate_int m);
        g \<leftarrow> Option.bind (map_of kwargs ''gender'') (validate_str m);
        h \<leftarrow> Option.bind (map_of kwargs ''height'') (validate_float m);
        w \<leftarrow> Option.bind (map_of kwargs ''weight'') (validate_float m);
        if 0 < a \<and> a < 120 \<and> 0 < h \<and> 0 < w
        then Some \<lparr>id' = i, name = n, city = c, age = a, gender = g, height = h, weight = w\<rparr>
        else None
      } of
        None \<Rightarrow> Inl ValidationError
      | Some p \<Rightarrow> Inr p)"

section \<open>The PatientUpdate model\<close>

text \<open>
  Every field is \<^verbatim>\<open>Optional\<close> with default \<^verbatim>\<open>None\<close>. Pydantic remembers which
  fields the payload set: a field is unset, or set to \<^verbatim>\<open>None\<close> or to a value.
\<close>

datatype 'a field = Unset | Set "'a option"

record PatientUpdate =
  name' :: "string field"
  city' :: "string field"
  age' :: "int field"
  gender' :: "string field"
  height' :: "rat field"
  weight' :: "rat field"

definition dump_field :: "string \<Rightarrow> ('a \<Rightarrow> scalar) \<Rightarrow> 'a field \<Rightarrow> pydict" where
  "dump_field k conv fld =
     (case fld of
        Unset \<Rightarrow> []
      | Set None \<Rightarrow> [(k, PyNone)]
      | Set (Some v) \<Rightarrow> [(k, conv v)])"

text \<open>\<^verbatim>\<open>model_dump(exclude_unset=True)\<close>: only the fields the payload set.\<close>

definition model_dump_exclude_unset :: "PatientUpdate \<Rightarrow> pydict" where
  "model_dump_exclude_unset self =
     dump_field ''name'' PyStr (name' self) @
     dump_field ''city'' PyStr (city' self) @
     dump_field ''age'' PyInt (age' self) @
     dump_field ''gender'' PyStr (gender' self) @
     dump_field ''height'' PyFloat (height' self) @
     dump_field ''weight'' PyFloat (weight' self)"

section \<open>The file and the operations of Python on the loaded data\<close>

text \<open>
  The state is the content of patients.json, taken to exist and to parse.
  \<^verbatim>\<open>load_data\<close> reads all of it and \<^verbatim>\<open>save_data\<close> replaces all of it.
\<close>

type_synonym patients_json = store

definition load_data :: "patients_json \<Rightarrow> store" where
  "load_data f = f"

definition save_data :: "store \<Rightarrow> patients_json \<Rightarrow> patients_json" where
  "save_data data f = data"

text \<open>\<^verbatim>\<open>for x in data\<close>: a dict yields its keys, a list its elements.\<close>

definition iter :: "store \<Rightarrow> pyobj list" where
  "iter data =
     (case data of
        Mapping kvs \<Rightarrow> map (\<lambda>kv. Scalar (PyStr (fst kv))) kvs
      | Sequence xs \<Rightarrow> xs)"

text \<open>\<^verbatim>\<open>k in data\<close>: a key of the dict, or an element of the list equal to the string.\<close>

definition contains :: "store \<Rightarrow> string \<Rightarrow> bool" where
  "contains data k =
     (case data of
        Mapping kvs \<Rightarrow> k \<in> set (map fst kvs)
      | Sequence xs \<Rightarrow> Scalar (PyStr k) \<in> set xs)"

text \<open>\<^verbatim>\<open>data[k]\<close>, \<^verbatim>\<open>data[k] = v\<close> and \<^verbatim>\<open>del data[k]\<close> with a string \<^verbatim>\<open>k\<close>: a list refuses the index.\<close>

definition getitem :: "store \<Rightarrow> string \<Rightarrow> error + pyobj" where
  "getitem data k =
     (case data of
        Mapping kvs \<Rightarrow> (case map_of kvs k of None \<Rightarrow> Inl KeyError | Some v \<Rightarrow> Inr v)
      | Sequence xs \<Rightarrow> Inl TypeError)"

definition setitem :: "store \<Rightarrow> string \<Rightarrow> pyobj \<Rightarrow> error + store" where
  "setitem data k v =
     (case data of
        Mapping kvs \<Rightarrow> Inr (Mapping (AList.update k v kvs))
      | Sequence xs \<Rightarrow> Inl TypeError)"

definition delitem :: "store \<Rightarrow> string \<Rightarrow> error + store" where
  "delitem data k =
     (case data of
        Mapping kvs \<Rightarrow>
          if k \<in> set (map fst kvs) then Inr (Mapping (AList.delete k kvs)) else Inl KeyError
      | Sequence xs \<Rightarrow> Inl TypeError)"

text \<open>\<^verbatim>\<open>x["id"]\<close> on an element: a record is looked up, a scalar refuses the index.\<close>

definition subscript :: "pyobj \<Rightarrow> string \<Rightarrow> error + scalar" where
  "subscript x k =
     (case x of
        Dict d \<Rightarrow> (case map_of d k of None \<Rightarrow> Inl KeyError | Some v \<Rightarrow> Inr v)
      | Scalar s \<Rightarrow> Inl TypeError)"

text \<open>\<^verbatim>\<open>x.get(k, default)\<close>: only a dict has the method.\<close>

definition get :: "pyobj \<Rightarrow> string \<Rightarrow> scalar \<Rightarrow> error + scalar" where
  "get x k dflt =
     (case x of
        Dict d \<Rightarrow> Inr (case map_of d k of None \<Rightarrow> dflt | Some v \<Rightarrow> v)
      | Scalar s \<Rightarrow> Inl AttributeError)"

text \<open>\<^verbatim>\<open>v == n\<close> for an \<^verbatim>\<open>int\<close> \<^verbatim>\<open>n\<close>: numbers compare by value, \<^verbatim>\<open>True\<close> is 1.\<close>

definition py_eq_int :: "scalar \<Rightarrow> int \<Rightarrow> bool" where
  "py_eq_int v n =
     (case v of
        PyInt k \<Rightarrow> k = n
      | PyFloat r \<Rightarrow> r = of_int n
      | PyBool b \<Rightarrow> (if b then 1 else 0) = n
      | _ \<Rightarrow> False)"

subsection \<open>sorted\<close>

definition is_number :: "scalar \<Rightarrow> bool" where
  "is_number v = (case v of PyBool b \<Rightarrow> True | PyInt n \<Rightarrow> True | PyFloat r \<Rightarrow> True | _ \<Rightarrow> False)"

definition number_of :: "scalar \<Rightarrow> rat" where
  "number_of v =
     (case v of
        PyBool b \<Rightarrow> (if b then 1 else 0)
      | PyInt n \<Rightarrow> of_int n
      | PyFloat r \<Rightarrow> r
      | _ \<Rightarrow> 0)"

definition is_str :: "scalar \<Rightarrow> bool" where
  "is_str v = (case v of PyStr s \<Rightarrow> True | _ \<Rightarrow> False)"

definition str_of :: "scalar \<Rightarrow> string" where
  "str_of v = (case v of PyStr s \<Rightarrow> s | _ \<Rightarrow> [])"

text \<open>The key function is called on every element, in order, before any comparison.\<close>

fun map_key :: "(pyobj \<Rightarrow> error + scalar) \<Rightarrow> pyobj list \<Rightarrow> error + (scalar \<times> pyobj) list" where
  "map_key key [] = Inr []"
| "map_key key (x # xs) =
     (case key x of
        Inl e \<Rightarrow> Inl e
      | Inr k \<Rightarrow> (case map_key key xs of Inl e \<Rightarrow> Inl e | Inr kxs \<Rightarrow> Inr ((k, x) # kxs)))"

text \<open>
  Python's sort is stable and compares keys with \<^verbatim>\<open><\<close>. Numbers (with \<^verbatim>\<open>bool\<close>)
  compare by value and strings lexicographically; every other pair of scalars
  raises \<^verbatim>\<open>TypeError\<close>. With fewer than two elements nothing is compared; with two
  or more, a sort cannot finish having compared only numbers with numbers and
  strings with strings unless all keys are of one of the two kinds.
\<close>

definition sort_keyed :: "(scalar \<times> pyobj) list \<Rightarrow> error + (scalar \<times> pyobj) list" where
  "sort_keyed kxs =
     (if length kxs \<le> 1 then Inr kxs
      else if list_all (\<lambda>kx. is_number (fst kx)) kxs
        then Inr (sort_key (\<lambda>kx. number_of (fst kx)) kxs)
      else if list_all (\<lambda>kx. is_str (fst kx)) kxs
        then Inr (sort_key (\<lambda>kx. str_of (fst kx)) kxs)
      else Inl TypeError)"

text \<open>
  \<^verbatim>\<open>sorted(data, key=..., reverse=...)\<close>. With \<^verbatim>\<open>reverse=True\<close> CPython reverses the
  list, sorts it and reverses it again, which keeps equal keys in their
  original order.
\<close>

definition sorted_py ::
  "pyobj list \<Rightarrow> (pyobj \<Rightarrow> error + scalar) \<Rightarrow> bool \<Rightarrow> error + pyobj list" where
  "sorted_py xs key reverse =
     (case map_key key xs of
        Inl e \<Rightarrow> Inl e
      | Inr kxs \<Rightarrow>
          if reverse
          then (case sort_keyed (rev kxs) of Inl e \<Rightarrow> Inl e | Inr s \<Rightarrow> Inr (map snd (rev s)))
          else (case sort_keyed kxs of Inl e \<Rightarrow> Inl e | Inr s \<Rightarrow> Inr (map snd s)))"

section \<open>The request handlers\<close>

text \<open>Every handler takes the file and returns its result with the file it leaves.\<close>

definition view :: "patients_json \<Rightarrow> (error + store) \<times> patients_json" where
  "view f = (let data = load_data f in (Inr data, f))"

text \<open>
  The body of the loop of \<^verbatim>\<open>view_patient\<close> returns or raises on the first element:
  the \<^verbatim>\<open>raise\<close> is inside the \<^verbatim>\<open>for\<close>. A loop over nothing falls off the end of the
  function, which returns \<^verbatim>\<open>None\<close>.
\<close>

fun view_patient_loop :: "pyobj list \<Rightarrow> int \<Rightarrow> error + pyobj" where
  "view_patient_loop [] patient_id = Inr (Scalar PyNone)"
| "view_patient_loop (patient # rest) patient_id =
     (case subscript patient ''id'' of
        Inl e \<Rightarrow> Inl e
      | Inr v \<Rightarrow>
          if py_eq_int v patient_id then Inr patient
          else Inl (HTTPException 404 ''Patient not found''))"

definition view_patient :: "int \<Rightarrow> patients_json \<Rightarrow> (error + pyobj) \<times> patients_json" where
  "view_patient patient_id f =
     (let data = load_data f in (view_patient_loop (iter data) patient_id, f))"

definition sort_patients :: "string \<Rightarrow> string \<Rightarrow> patients_json \<Rightarrow> (error + pyobj list) \<times> patients_json" where
  "sort_patients sort_by order f =
     (let valid_fields = [''gender'', ''age''] in
      if sort_by \<notin> set valid_fields
      then (Inl (HTTPException 400 ''Invalid sort field. Valid fields are: ['gender', 'age']''), f)
      else if order \<notin> set [''asc'', ''desc'']
      then (Inl (HTTPException 400 ''Invalid order. Valid orders are: 'asc' or 'desc' ''), f)
      else
        let data = load_data f;
            sort_order = (if order = ''desc'' then True else False)
        in (sorted_py (iter data) (\<lambda>x. get x sort_by (PyInt 0)) sort_order, f))"

text \<open>
  The two handlers that build a \<^verbatim>\<open>Patient\<close> dump its computed fields;
  \<^const>\<open>None\<close> is the \<^const>\<open>None\<close> of \<^const>\<open>bmi\<close>.
\<close>

definition create_patient ::
  "float_ops \<Rightarrow> Patient \<Rightarrow> patients_json \<Rightarrow> ((error + response) \<times> patients_json) option" where
  "create_patient F patient f =
     (let data = load_data f in
      if contains data (id' patient)
      then Some (Inl (HTTPException 400 ''Patient already exists''), f)
      else
        (case model_dump_exclude_id F patient of
           None \<Rightarrow> None
         | Some (Inl e) \<Rightarrow> Some (Inl e, f)
         | Some (Inr d) \<Rightarrow>
             (case setitem data (id' patient) (Dict d) of
                Inl e \<Rightarrow> Some (Inl e, f)
              | Inr data' \<Rightarrow>
                  Some (Inr (JSONResponse 201 ''Patient created sucessfully!''),
                        save_data data' f))))"

text \<open>The loop \<^verbatim>\<open>for key, value in updated_patient_info.items()\<close>.\<close>

fun update_loop :: "pydict \<Rightarrow> (string \<times> scalar) list \<Rightarrow> pydict" where
  "update_loop existing_patient_info [] = existing_patient_info"
| "update_loop existing_patient_info ((key, val) # items) =
     update_loop (AList.update key val existing_patient_info) items"

text \<open>
  \<^verbatim>\<open>existing_patient_info\<close> is the very dict stored in \<^verbatim>\<open>data\<close>, so the loop and the
  assignment of the id change \<^verbatim>\<open>data\<close> in memory (\<open>data1\<close> below) before the
  record is validated; the file changes only at \<^verbatim>\<open>save_data\<close>. A stored value
  that is not a dict refuses the item assignment.
\<close>

definition update_patient ::
  "float_ops \<Rightarrow> lax \<Rightarrow> string \<Rightarrow> PatientUpdate \<Rightarrow> patients_json \<Rightarrow>
     ((error + response) \<times> patients_json) option" where
  "update_patient F m patient_id patient_update f =
     (let data = load_data f in
      if \<not> contains data patient_id
      then Some (Inl (HTTPException 404 ''Patient not found''), f)
      else
        (case getitem data patient_id of
           Inl e \<Rightarrow> Some (Inl e, f)
         | Inr (Scalar s) \<Rightarrow> Some (Inl TypeError, f)
         | Inr (Dict d) \<Rightarrow>
             let updated_patient_info = model_dump_exclude_unset patient_update;
                 existing_patient_info =
                   AList.update ''id'' (PyStr patient_id) (update_loop d updated_patient_info)
             in (case setitem data patient_id (Dict existing_patient_info) of
                   Inl e \<Rightarrow> Some (Inl e, f)
                 | Inr data1 \<Rightarrow>
                     (case Patient_init m existing_patient_info of
                        Inl e \<Rightarrow> Some (Inl e, f)
                      | Inr patient_pydantic_obj \<Rightarrow>
                          (case model_dump_exclude_id F patient_pydantic_obj of
                             None \<Rightarrow> None
                           | Some (Inl e) \<Rightarrow> Some (Inl e, f)
                           | Some (Inr dumped) \<Rightarrow>
                               (case setitem data1 patient_id (Dict dumped) of
                                  Inl e \<Rightarrow> Some (Inl e, f)
                                | Inr data2 \<Rightarrow>
                                    Some (Inr (JSONResponse 200
                                                 ''Patient details updated successfully!''),
                                          save_data data2 f)))))))"

definition delete_patient :: "string \<Rightarrow> patients_json \<Rightarrow> (error + response) \<times> patients_json" where
  "delete_patient patient_id f =
     (let data = load_data f in
      if \<not> contains data patient_id
      then (Inl (HTTPException 404 ''Patient not found''), f)
      else
        (case delitem data patient_id of
           Inl e \<Rightarrow> (Inl e, f)
         | Inr data' \<Rightarrow>
             (Inr (JSONResponse 200 ''Patient deleted successfully!''), save_data data' f)))"

section \<open>Predicates of the statements\<close>

text \<open>What a field of an update payload puts into the dumped dict, if anything.\<close>

definition field_value :: "('a \<Rightarrow> scalar) \<Rightarrow> 'a field \<Rightarrow> scalar option" where
  "field_value conv fld =
     (case fld of Unset \<Rightarrow> None | Set None \<Rightarrow> Some PyNone | Set (Some v) \<Rightarrow> Some (conv v))"

text \<open>
  A stored record is well typed when the fields it has carry the types that
  class \<^verbatim>\<open>Patient\<close> declares for them.
\<close>

definition is_int :: "scalar \<Rightarrow> bool" where
  "is_int v = (case v of PyInt n \<Rightarrow> True | _ \<Rightarrow> False)"

definition is_float :: "scalar \<Rightarrow> bool" where
  "is_float v = (case v of PyFloat r \<Rightarrow> True | _ \<Rightarrow> False)"

definition field_has :: "(scalar \<Rightarrow> bool) \<Rightarrow> pydict \<Rightarrow> string \<Rightarrow> bool" where
  "field_has P d k = (case map_of d k of None \<Rightarrow> True | Some v \<Rightarrow> P v)"

definition well_typed :: "pydict \<Rightarrow> bool" where
  "well_typed d \<longleftrightarrow>
     field_has is_str d ''name'' \<and> field_has is_str d ''city'' \<and> field_has is_int d ''age'' \<and>
     field_has is_str d ''gender'' \<and> field_has is_float d ''height'' \<and>
     field_has is_float d ''weight''"




section \<open>Example data\<close>

text \<open>
  A stored record, a new patient and two update payloads, for the concrete
  cases below. Asha is 1.25 m and 38.8984375 kg: the quotient 24.895 is not a
  double, the double nearest to it is below it, and her \<^verbatim>\<open>bmi\<close> is 24.89.
\<close>

abbreviation asha :: pydict where
  "asha \<equiv> [(''name'', PyStr ''Asha''), (''city'', PyStr ''Pune''), (''age'', PyInt 30),
            (''gender'', PyStr ''Female''), (''height'', PyFloat 1.25),
            (''weight'', PyFloat 38.8984375), (''bmi'', PyFloat (double 24.89)),
            (''verdict'', PyStr ''Normal weight'')]"

abbreviation asha_aged_31 :: pydict where
  "asha_aged_31 \<equiv> [(''name'', PyStr ''Asha''), (''city'', PyStr ''Pune''), (''age'', PyInt 31),
            (''gender'', PyStr ''Female''), (''height'', PyFloat 1.25),
            (''weight'', PyFloat 38.8984375), (''bmi'', PyFloat (double 24.89)),
            (''verdict'', PyStr ''Normal weight'')]"



abbreviation ravi :: Patient where
  "ravi \<equiv> \<lparr>id' = ''P002'', name = ''Ravi'', city = ''Agra'', age = 41, gender = ''Male'',
           height = 1.75, weight = 70\<rparr>"

abbreviation ravi_dumped :: pydict where
  "ravi_dumped \<equiv> [(''name'', PyStr ''Ravi''), (''city'', PyStr ''Agra''), (''age'', PyInt 41),
            (''gender'', PyStr ''Male''), (''height'', PyFloat 1.75), (''weight'', PyFloat 70),
            (''bmi'', PyFloat (double 22.86)), (''verdict'', PyStr ''Normal weight'')]"



abbreviation only_age :: "int \<Rightarrow> PatientUpdate" where
  "only_age a \<equiv> \<lparr>name' = Unset, city' = Unset, age' = Set (Some a), gender' = Unset,
                  height' = Unset, weight' = Unset\<rparr>"


section \<open>Derived fields\<close>







section \<open>The merge of an update\<close>

text \<open>The loop lets a later item win over an earlier one and over the stored value.\<close>

lemma map_of_update_loop:
  "map_of (update_loop d items) k =
     (case map_of (rev items) k of Some v \<Rightarrow> Some v | None \<Rightarrow> map_of d k)"
proof (induction items arbitrary: d)
  case Nil
  show ?case by simp
next
  case (Cons kv items)
  obtain key val where kv: "kv = (key, val)" by (cases kv)
  show ?case
    by (simp add: kv Cons.IH update_conv' map_add_def split: option.splits)
qed

lemma map_of_rev_distinct:
  assumes "distinct (map fst xs)"
  shows "map_of (rev xs) = map_of xs"
proof -
  have "distinct (map fst (rev xs))"
    using assms by (simp add: rev_map [symmetric])
  moreover have "set (rev xs) = set xs"
    by simp
  ultimately show ?thesis
    using assms by (simp add: map_of_inject_set)
qed

lemma map_fst_dump_field:
  "map fst (dump_field k conv fld) = (if fld = Unset then [] else [k])"
  by (simp add: dump_field_def split: field.splits option.splits)

lemma distinct_model_dump_exclude_unset:
  "distinct (map fst (model_dump_exclude_unset u))"
  by (simp add: model_dump_exclude_unset_def map_fst_dump_field)

lemma map_of_dump_field:
  "map_of (dump_field k conv fld) k' = (if k' = k then field_value conv fld else None)"
  by (simp add: dump_field_def field_value_def split: field.splits option.splits)

lemma map_of_model_dump_exclude_unset:
  "map_of (model_dump_exclude_unset u) ''name'' = field_value PyStr (name' u)"
  "map_of (model_dump_exclude_unset u) ''city'' = field_value PyStr (city' u)"
  "map_of (model_dump_exclude_unset u) ''age'' = field_value PyInt (age' u)"
  "map_of (model_dump_exclude_unset u) ''gender'' = field_value PyStr (gender' u)"
  "map_of (model_dump_exclude_unset u) ''height'' = field_value PyFloat (height' u)"
  "map_of (model_dump_exclude_unset u) ''weight'' = field_value PyFloat (weight' u)"
  by (simp_all add: model_dump_exclude_unset_def map_of_dump_field map_add_def
      split: option.splits)

lemma map_of_merged:
  "map_of (update_loop old (model_dump_exclude_unset u)) k =
     (case map_of (model_dump_exclude_unset u) k of Some v \<Rightarrow> Some v | None \<Rightarrow> map_of old k)"
  by (simp add: map_of_update_loop map_of_rev_distinct distinct_model_dump_exclude_unset)

lemma validate_str_typed:
  "validate_str m v = Some s \<Longrightarrow> v = PyNone \<or> is_str v \<Longrightarrow> v = PyStr s"
  by (cases v) (auto simp: validate_str_def is_str_def)

lemma validate_int_typed:
  "validate_int m v = Some n \<Longrightarrow> v = PyNone \<or> is_int v \<Longrightarrow> v = PyInt n"
  by (cases v) (auto simp: validate_int_def is_int_def)

lemma validate_float_typed:
  "validate_float m v = Some r \<Longrightarrow> v = PyNone \<or> is_float v \<Longrightarrow> v = PyFloat r"
  by (cases v) (auto simp: validate_float_def is_float_def)

lemma overlay_typed:
  assumes "(case field_value conv fld of Some v \<Rightarrow> Some v | None \<Rightarrow> map_of old k) = Some x"
    and "field_has P old k"
    and "\<And>a. P (conv a)"
  shows "x = PyNone \<or> P x"
  using assms
  by (auto simp: field_value_def field_has_def split: field.splits option.splits)

lemma merged_field_typed:
  assumes "map_of (update_loop old (model_dump_exclude_unset u)) k = Some v"
    and "map_of (model_dump_exclude_unset u) k = field_value conv fld"
    and "field_has P old k"
    and "\<And>a. P (conv a)"
  shows "v = PyNone \<or> P v"
proof -
  from assms(1,2) have "(case field_value conv fld of Some x \<Rightarrow> Some x | None \<Rightarrow> map_of old k) = Some v"
    by (simp add: map_of_merged)
  then show ?thesis
    using assms(3,4) by (rule overlay_typed)
qed

section \<open>What a successful handler has done\<close>

lemma Patient_init_InrD:
  assumes "Patient_init m kw = Inr p"
  shows "\<exists>vi vn vc va vg vh vw.
     map_of kw ''id'' = Some vi \<and> validate_str m vi = Some (id' p) \<and>
     map_of kw ''name'' = Some vn \<and> validate_str m vn = Some (name p) \<and>
     map_of kw ''city'' = Some vc \<and> validate_str m vc = Some (city p) \<and>
     map_of kw ''age'' = Some va \<and> validate_int m va = Some (age p) \<and>
     map_of kw ''gender'' = Some vg \<and> validate_str m vg = Some (gender p) \<and>
     map_of kw ''height'' = Some vh \<and> validate_float m vh = Some (height p) \<and>
     map_of kw ''weight'' = Some vw \<and> validate_float m vw = Some (weight p) \<and>
     0 < age p \<and> age p < 120 \<and> 0 < height p \<and> 0 < weight p"
  using assms
  by (auto simp: Patient_init_def split: option.splits Option.bind_splits if_splits)

lemma model_dump_SomeD:
  assumes "model_dump_exclude_id F p = Some (Inr dumped)"
  shows "\<exists>b. bmi F p = Some (Inr b) \<and>
     dumped = [(''name'', PyStr (name p)), (''city'', PyStr (city p)), (''age'', PyInt (age p)),
         (''gender'', PyStr (gender p)), (''height'', PyFloat (height p)),
         (''weight'', PyFloat (weight p)), (''bmi'', PyFloat b),
         (''verdict'', PyStr
           (if b < double 18.5 then ''Underweight''
            else if double 18.5 \<le> b \<and> b < double 24.9 then ''Normal weight''
            else if 25 \<le> b \<and> b < double 29.9 then ''Overweight''
            else ''Obese''))]"
  using assms
  by (auto simp: model_dump_exclude_id_def verdict_def split: option.splits sum.splits if_splits)

lemma update_patient_SomeD:
  assumes "update_patient F m pid u f = Some (Inr r, f')"
  shows "\<exists>kvs old p dumped.
     load_data f = Mapping kvs \<and> map_of kvs pid = Some (Dict old) \<and>
     Patient_init m (AList.update ''id'' (PyStr pid)
        (update_loop old (model_dump_exclude_unset u))) = Inr p \<and>
     model_dump_exclude_id F p = Some (Inr dumped) \<and>
     load_data f' = Mapping (AList.update pid (Dict dumped) kvs)"
  using assms
  by (auto simp: update_patient_def Let_def getitem_def setitem_def save_data_def load_data_def
      split: if_splits sum.splits pyobj.splits store.splits option.splits)


lemma update_patient_persists:
  assumes "load_data f = Mapping kvs"
    and "map_of kvs pid = Some (Dict old)"
    and "update_patient F m pid u f = Some (Inr r, f')"
  shows "\<exists>p b.
     Patient_init m (AList.update ''id'' (PyStr pid)
        (update_loop old (model_dump_exclude_unset u))) = Inr p \<and>
     bmi F p = Some (Inr b) \<and>
     load_data f' = Mapping (AList.update pid (Dict
        [(''name'', PyStr (name p)), (''city'', PyStr (city p)), (''age'', PyInt (age p)),
         (''gender'', PyStr (gender p)), (''height'', PyFloat (height p)),
         (''weight'', PyFloat (weight p)), (''bmi'', PyFloat b),
         (''verdict'', PyStr
           (if b < double 18.5 then ''Underweight''
            else if double 18.5 \<le> b \<and> b < double 24.9 then ''Normal weight''
            else if 25 \<le> b \<and> b < double 29.9 then ''Overweight''
            else ''Obese''))]) kvs)"
proof -
  from assms(3) obtain kvs' old' p dumped where
    "load_data f = Mapping kvs'" and "map_of kvs' pid = Some (Dict old')"
    and init: "Patient_init m (AList.update ''id'' (PyStr pid)
        (update_loop old' (model_dump_exclude_unset u))) = Inr p"
    and dump: "model_dump_exclude_id F p = Some (Inr dumped)"
    and st: "load_data f' = Mapping (AList.update pid (Dict dumped) kvs')"
    using update_patient_SomeD by blast
  with assms(1,2) have same: "kvs' = kvs" "old' = old"
    by simp_all
  from dump obtain b where "bmi F p = Some (Inr b)"
    and "dumped = [(''name'', PyStr (name p)), (''city'', PyStr (city p)), (''age'', PyInt (age p)),
         (''gender'', PyStr (gender p)), (''height'', PyFloat (height p)),
         (''weight'', PyFloat (weight p)), (''bmi'', PyFloat b),
         (''verdict'', PyStr
           (if b < double 18.5 then ''Underweight''
            else if double 18.5 \<le> b \<and> b < double 24.9 then ''Normal weight''
            else if 25 \<le> b \<and> b < double 29.9 then ''Overweight''
            else ''Obese''))]"
    using model_dump_SomeD by blast
  with init st same show ?thesis
    by blast
qed

lemma validated_fields_of_typed_record:
  assumes wt: "well_typed old"
    and init: "Patient_init m (AList.update ''id'' (PyStr pid)
        (update_loop old (model_dump_exclude_unset u))) = Inr p"
  shows "map_of (update_loop old (model_dump_exclude_unset u)) ''name'' = Some (PyStr (name p))"
    and "map_of (update_loop old (model_dump_exclude_unset u)) ''city'' = Some (PyStr (city p))"
    and "map_of (update_loop old (model_dump_exclude_unset u)) ''age'' = Some (PyInt (age p))"
    and "map_of (update_loop old (model_dump_exclude_unset u)) ''gender'' = Some (PyStr (gender p))"
    and "map_of (update_loop old (model_dump_exclude_unset u)) ''height'' = Some (PyFloat (height p))"
    and "map_of (update_loop old (model_dump_exclude_unset u)) ''weight'' = Some (PyFloat (weight p))"
proof -
  let ?merged = "update_loop old (model_dump_exclude_unset u)"
  from init obtain vn vc va vg vh vw where
    n: "map_of ?merged ''name'' = Some vn" "validate_str m vn = Some (name p)" and
    c: "map_of ?merged ''city'' = Some vc" "validate_str m vc = Some (city p)" and
    a: "map_of ?merged ''age'' = Some va" "validate_int m va = Some (age p)" and
    g: "map_of ?merged ''gender'' = Some vg" "validate_str m vg = Some (gender p)" and
    h: "map_of ?merged ''height'' = Some vh" "validate_float m vh = Some (height p)" and
    w: "map_of ?merged ''weight'' = Some vw" "validate_float m vw = Some (weight p)"
    using Patient_init_InrD [OF init] by (auto simp: update_conv')
  from wt have fh:
    "field_has is_str old ''name''" "field_has is_str old ''city''"
    "field_has is_int old ''age''" "field_has is_str old ''gender''"
    "field_has is_float old ''height''" "field_has is_float old ''weight''"
    by (simp_all add: well_typed_def)
  have "vn = PyNone \<or> is_str vn"
    using n(1) map_of_model_dump_exclude_unset(1) fh(1)
    by (rule merged_field_typed) (simp add: is_str_def)
  with n show "map_of ?merged ''name'' = Some (PyStr (name p))"
    by (simp add: validate_str_typed)
  have "vc = PyNone \<or> is_str vc"
    using c(1) map_of_model_dump_exclude_unset(2) fh(2)
    by (rule merged_field_typed) (simp add: is_str_def)
  with c show "map_of ?merged ''city'' = Some (PyStr (city p))"
    by (simp add: validate_str_typed)
  have "va = PyNone \<or> is_int va"
    using a(1) map_of_model_dump_exclude_unset(3) fh(3)
    by (rule merged_field_typed) (simp add: is_int_def)
  with a show "map_of ?merged ''age'' = Some (PyInt (age p))"
    by (simp add: validate_int_typed)
  have "vg = PyNone \<or> is_str vg"
    using g(1) map_of_model_dump_exclude_unset(4) fh(4)
    by (rule merged_field_typed) (simp add: is_str_def)
  with g show "map_of ?merged ''gender'' = Some (PyStr (gender p))"
    by (simp add: validate_str_typed)
  have "vh = PyNone \<or> is_float vh"
    using h(1) map_of_model_dump_exclude_unset(5) fh(5)
    by (rule merged_field_typed) (simp add: is_float_def)
  with h show "map_of ?merged ''height'' = Some (PyFloat (height p))"
    by (simp add: validate_float_typed)
  have "vw = PyNone \<or> is_float vw"
    using w(1) map_of_model_dump_exclude_unset(6) fh(6)
    by (rule merged_field_typed) (simp add: is_float_def)
  with w show "map_of ?merged ''weight'' = Some (PyFloat (weight p))"
    by (simp add: validate_float_typed)
qed

text \<open>
  C3. A successful update of a well-typed stored record overlays exactly the
  fields that the payload sets: each of the six input fields of the persisted
  record is the payload's value when the payload sets it and the stored value
  otherwise. In particular a payload that sets only the age leaves name, city,
  gender, height and weight as they were.
\<close>

theorem update_overlays_only_set_fields:
  assumes "load_data f = Mapping kvs"
    and "map_of kvs pid = Some (Dict old)"
    and "well_typed old"
    and "update_patient F m pid u f = Some (Inr r, f')"
  shows "\<exists>new. load_data f' = Mapping (AList.update pid (Dict new) kvs) \<and>
     (\<forall>k \<in> set [''name'', ''city'', ''age'', ''gender'', ''height'', ''weight''].
        map_of new k =
          (case map_of (model_dump_exclude_unset u) k of
             Some v \<Rightarrow> Some v
           | None \<Rightarrow> map_of old k)) \<and>
     (name' u = Unset \<and> city' u = Unset \<and> gender' u = Unset \<and> height' u = Unset \<and>
      weight' u = Unset \<longrightarrow>
        (\<forall>k \<in> set [''name'', ''city'', ''gender'', ''height'', ''weight''].
           map_of new k = map_of old k))"
proof -
  from assms(1,2,4) obtain p b where
    init: "Patient_init m (AList.update ''id'' (PyStr pid)
        (update_loop old (model_dump_exclude_unset u))) = Inr p"
    and st: "load_data f' = Mapping (AList.update pid (Dict
        [(''name'', PyStr (name p)), (''city'', PyStr (city p)), (''age'', PyInt (age p)),
         (''gender'', PyStr (gender p)), (''height'', PyFloat (height p)),
         (''weight'', PyFloat (weight p)), (''bmi'', PyFloat b),
         (''verdict'', PyStr
           (if b < double 18.5 then ''Underweight''
            else if double 18.5 \<le> b \<and> b < double 24.9 then ''Normal weight''
            else if 25 \<le> b \<and> b < double 29.9 then ''Overweight''
            else ''Obese''))]) kvs)"
    using update_patient_persists by blast
  let ?new = "[(''name'', PyStr (name p)), (''city'', PyStr (city p)), (''age'', PyInt (age p)),
         (''gender'', PyStr (gender p)), (''height'', PyFloat (height p)),
         (''weight'', PyFloat (weight p)), (''bmi'', PyFloat b),
         (''verdict'', PyStr
           (if b < double 18.5 then ''Underweight''
            else if double 18.5 \<le> b \<and> b < double 24.9 then ''Normal weight''
            else if 25 \<le> b \<and> b < double 29.9 then ''Overweight''
            else ''Obese''))]"
  note merged = validated_fields_of_typed_record [OF assms(3) init]
  have overlay: "\<forall>k \<in> set [''name'', ''city'', ''age'', ''gender'', ''height'', ''weight''].
        map_of ?new k =
          (case map_of (model_dump_exclude_unset u) k of
             Some v \<Rightarrow> Some v
           | None \<Rightarrow> map_of old k)"
    using merged by (simp add: map_of_merged)
  have "\<forall>k \<in> set [''name'', ''city'', ''gender'', ''height'', ''weight''].
           map_of ?new k = map_of old k"
    if "name' u = Unset \<and> city' u = Unset \<and> gender' u = Unset \<and> height' u = Unset \<and>
      weight' u = Unset"
    using overlay that by (simp add: map_of_model_dump_exclude_unset field_value_def)
  with st overlay show ?thesis
    by blast
qed

text \<open>An update of the stored record of Asha that sets only the age, to 31.\<close>

theorem update_overlays_only_set_fields_witness:
  "load_data (Mapping [(''P001'', Dict asha)]) = Mapping [(''P001'', Dict asha)] \<and>
   map_of [(''P001'', Dict asha)] ''P001'' = Some (Dict asha) \<and>
   well_typed asha \<and>
   update_patient ieee lax_numbers ''P001'' (only_age 31) (Mapping [(''P001'', Dict asha)]) =
     Some (Inr (JSONResponse 200 ''Patient details updated successfully!''),
           Mapping [(''P001'', Dict asha_aged_31)]) \<and>
   (\<exists>new. load_data (Mapping [(''P001'', Dict asha_aged_31)]) =
        Mapping (AList.update ''P001'' (Dict new) [(''P001'', Dict asha)]) \<and>
      map_of new ''name'' = Some (PyStr ''Asha'') \<and>
      map_of new ''city'' = Some (PyStr ''Pune'') \<and>
      map_of new ''age'' = Some (PyInt 31) \<and>
      map_of new ''gender'' = Some (PyStr ''Female'') \<and>
      map_of new ''height'' = Some (PyFloat 1.25) \<and>
      map_of new ''weight'' = Some (PyFloat 38.8984375))"
proof -
  have h1: "load_data (Mapping [(''P001'', Dict asha)]) = Mapping [(''P001'', Dict asha)]"
    by (simp add: load_data_def)
  have h2: "map_of [(''P001'', Dict asha)] ''P001'' = Some (Dict asha)"
    by simp
  have h3: "well_typed asha"
    by code_simp
  have h4: "update_patient ieee lax_numbers ''P001'' (only_age 31)
      (Mapping [(''P001'', Dict asha)]) =
     Some (Inr (JSONResponse 200 ''Patient details updated successfully!''),
           Mapping [(''P001'', Dict asha_aged_31)])"
    by code_simp
  from update_overlays_only_set_fields [OF h1 h2 h3 h4] obtain new where
    "load_data (Mapping [(''P001'', Dict asha_aged_31)]) =
        Mapping (AList.update ''P001'' (Dict new) [(''P001'', Dict asha)])"
    and "\<forall>k \<in> set [''name'', ''city'', ''age'', ''gender'', ''height'', ''weight''].
        map_of new k =
          (case map_of (model_dump_exclude_unset (only_age 31)) k of
             Some v \<Rightarrow> Some v
           | None \<Rightarrow> map_of asha k)"
    by (elim exE conjE) (rule that)
  then have "load_data (Mapping [(''P001'', Dict asha_aged_31)]) =
        Mapping (AList.update ''P001'' (Dict new) [(''P001'', Dict asha)]) \<and>
      map_of new ''name'' = Some (PyStr ''Asha'') \<and>
      map_of new ''city'' = Some (PyStr ''Pune'') \<and>
      map_of new ''age'' = Some (PyInt 31) \<and>
      map_of new ''gender'' = Some (PyStr ''Female'') \<and>
      map_of new ''height'' = Some (PyFloat 1.25) \<and>
      map_of new ''weight'' = Some (PyFloat 38.8984375)"
    by (simp add: map_of_model_dump_exclude_unset field_value_def)
  then have c: "\<exists>new. load_data (Mapping [(''P001'', Dict asha_aged_31)]) =
        Mapping (AList.update ''P001'' (Dict new) [(''P001'', Dict asha)]) \<and>
      map_of new ''name'' = Some (PyStr ''Asha'') \<and>
      map_of new ''city'' = Some (PyStr ''Pune'') \<and>
      map_of new ''age'' = Some (PyInt 31) \<and>
      map_of new ''gender'' = Some (PyStr ''Female'') \<and>
      map_of new ''height'' = Some (PyFloat 1.25) \<and>
      map_of new ''weight'' = Some (PyFloat 38.8984375)"
    by (rule exI [of _ new])
  from h1 h2 h3 h4 c show ?thesis
    by (intro conjI)
qed



text \<open>
  C5. A create whose id is already a key of the store fails with the 400
  "Patient already exists" and leaves the file, hence the record under that id,
  as it was.
\<close>

theorem create_existing_id_conflict:
  "load_data f = Mapping kvs \<Longrightarrow> id' p \<in> fst ` set kvs \<Longrightarrow>
   create_patient F p f = Some (Inl (HTTPException 400 ''Patient already exists''), f)"
  by (simp add: create_patient_def contains_def)

text \<open>Creating Ravi, whose id is P002, in a store that already has a record under P002.\<close>

theorem create_existing_id_conflict_witness:
  "load_data (Mapping [(''P002'', Dict asha)]) = Mapping [(''P002'', Dict asha)] \<and>
   id' ravi \<in> fst ` set [(''P002'', Dict asha)] \<and>
   create_patient ieee ravi (Mapping [(''P002'', Dict asha)]) =
     Some (Inl (HTTPException 400 ''Patient already exists''), Mapping [(''P002'', Dict asha)])"
  using create_existing_id_conflict
    [of "Mapping [(''P002'', Dict asha)]" "[(''P002'', Dict asha)]" ravi ieee]
  by (simp add: load_data_def)




text \<open>
  C10. The query operations (list all, get by id, sort) never save: the file
  after the call is the file before it.
\<close>

theorem queries_leave_file_unchanged:
  "snd (view f) = f \<and> snd (view_patient patient_id f) = f \<and>
   snd (sort_patients sort_by order f) = f"
  by (simp add: view_def view_patient_def sort_patients_def Let_def)

section \<open>The queries on the store that the mutations write\<close>

text \<open>
  \<^verbatim>\<open>create_patient\<close>, \<^verbatim>\<open>update_patient\<close> and \<^verbatim>\<open>delete_patient\<close> keep the store as
  a dict from id to record. Iterating that dict yields its keys, which are
  strings: \<^verbatim>\<open>view_patient\<close> indexes the first key with \<^verbatim>\<open>"id"\<close> and
  \<^verbatim>\<open>sort_patients\<close> calls \<^verbatim>\<open>.get\<close> on it.
\<close>

lemma view_patient_Mapping:
  "fst (view_patient patient_id (Mapping kvs)) =
     (if kvs = [] then Inr (Scalar PyNone) else Inl TypeError)"
  by (cases kvs) (simp_all add: view_patient_def load_data_def iter_def subscript_def)

lemma map_key_get_Mapping:
  "kvs \<noteq> [] \<Longrightarrow> map_key (\<lambda>x. get x k d) (iter (Mapping kvs)) = Inl AttributeError"
  by (cases kvs) (simp_all add: iter_def get_def)

lemma sort_patients_Mapping:
  assumes "sort_by \<in> {''gender'', ''age''}" and "order \<in> {''asc'', ''desc''}"
  shows "fst (sort_patients sort_by order (Mapping kvs)) =
     (if kvs = [] then Inr [] else Inl AttributeError)"
proof (cases kvs)
  case Nil
  with assms show ?thesis
    by (auto simp: sort_patients_def Let_def load_data_def sorted_py_def iter_def sort_keyed_def)
next
  case (Cons kv kvs')
  then have "map_key (\<lambda>x. get x sort_by (PyInt 0)) (iter (Mapping kvs)) = Inl AttributeError"
    by (simp add: map_key_get_Mapping)
  with assms Cons show ?thesis
    by (auto simp: sort_patients_def Let_def load_data_def sorted_py_def)
qed

text \<open>
  C1. Get by id is claimed to return the stored record with the requested id
  wherever it is in the collection, and to raise NotFound exactly when no
  element matches. \<^verbatim>\<open>view_patient\<close> decides on the first element alone: on a list
  of records whose second element has the requested id it raises the 404; on
  the empty dict, where nothing matches, it returns \<^verbatim>\<open>None\<close>; on a dict with the
  id as a key it raises \<^verbatim>\<open>TypeError\<close>.
\<close>

theorem view_patient_checks_first_element_only:
  "fst (view_patient 2 (Sequence [Dict [(''id'', PyInt 1), (''name'', PyStr ''Asha'')],
                                  Dict [(''id'', PyInt 2), (''name'', PyStr ''Ravi'')]])) =
     Inl (HTTPException 404 ''Patient not found'') \<and>
   fst (view_patient 7 (Mapping [])) = Inr (Scalar PyNone) \<and>
   fst (view_patient 7 (Mapping [(''7'', Dict asha)])) = Inl TypeError"
  by code_simp

text \<open>
  The sort raises the 400 exactly for a sort key or an order outside the
  accepted ones; its other exceptions are \<^verbatim>\<open>AttributeError\<close> and \<^verbatim>\<open>TypeError\<close>.
\<close>

lemma map_key_get_error:
  "map_key (\<lambda>x. get x k d) xs = Inl e \<Longrightarrow> e = AttributeError"
  by (induction xs) (auto simp: get_def split: pyobj.splits sum.splits)

lemma sort_keyed_error: "sort_keyed kxs = Inl e \<Longrightarrow> e = TypeError"
  by (auto simp: sort_keyed_def split: if_splits)

lemma sorted_py_get_error:
  "sorted_py xs (\<lambda>x. get x k d) reverse = Inl e \<Longrightarrow> e = AttributeError \<or> e = TypeError"
  by (auto simp: sorted_py_def split: sum.splits if_splits
      dest: map_key_get_error sort_keyed_error)

lemma sort_patients_BadRequest_iff:
  "(\<exists>detail. fst (sort_patients sort_by order f) = Inl (HTTPException 400 detail)) \<longleftrightarrow>
     sort_by \<notin> {''gender'', ''age''} \<or> order \<notin> {''asc'', ''desc''}"
proof (cases "sort_by \<notin> {''gender'', ''age''} \<or> order \<notin> {''asc'', ''desc''}")
  case True
  then show ?thesis
    by (auto simp: sort_patients_def Let_def)
next
  case False
  then have "fst (sort_patients sort_by order f) =
      sorted_py (iter (load_data f)) (\<lambda>x. get x sort_by (PyInt 0)) (order = ''desc'')"
    by (auto simp: sort_patients_def Let_def)
  with False show ?thesis
    by (auto dest: sorted_py_get_error)
qed

text \<open>
  C6. The sort is claimed to fail with BadRequest exactly for a sort key outside
  {gender, age} or a direction outside {asc, desc}, and never to fail for valid
  parameters. The first half holds (\<open>sort_patients_BadRequest_iff\<close>); the second
  does not: with valid parameters and a store of one record, the sort raises
  \<^verbatim>\<open>AttributeError\<close>.
\<close>

theorem sort_patients_valid_parameters_error:
  "''age'' \<in> set [''gender'', ''age''] \<and> ''asc'' \<in> set [''asc'', ''desc''] \<and>
   fst (sort_patients ''age'' ''asc'' (Mapping [(''P001'', Dict asha)])) = Inl AttributeError"
  by code_simp

text \<open>
  C7. Sorting by age is claimed to put records of ages 30, 20, 25 in the order
  20, 25, 30, or 30, 25, 20 when descending, as a stable sort of the stored
  records. On the dict of three such records the sort raises
  \<^verbatim>\<open>AttributeError\<close> in both directions.
\<close>

theorem sort_patients_ages_of_stored_records:
  "fst (sort_patients ''age'' ''asc''
      (Mapping [(''P001'', Dict [(''name'', PyStr ''Asha''), (''age'', PyInt 30)]),
                (''P002'', Dict [(''name'', PyStr ''Ravi''), (''age'', PyInt 20)]),
                (''P003'', Dict [(''name'', PyStr ''Meera''), (''age'', PyInt 25)])])) =
     Inl AttributeError \<and>
   fst (sort_patients ''age'' ''desc''
      (Mapping [(''P001'', Dict [(''name'', PyStr ''Asha''), (''age'', PyInt 30)]),
                (''P002'', Dict [(''name'', PyStr ''Ravi''), (''age'', PyInt 20)]),
                (''P003'', Dict [(''name'', PyStr ''Meera''), (''age'', PyInt 25)])])) =
     Inl AttributeError"
  by code_simp

text \<open>
  On a JSON array of the same records the sort does what is claimed, equal
  ages staying in their original order in both directions.
\<close>

lemma sort_patients_ages_of_a_list:
  "fst (sort_patients ''age'' ''asc''
      (Sequence [Dict [(''name'', PyStr ''Asha''), (''age'', PyInt 30)],
                 Dict [(''name'', PyStr ''Ravi''), (''age'', PyInt 20)],
                 Dict [(''name'', PyStr ''Meera''), (''age'', PyInt 25)],
                 Dict [(''name'', PyStr ''Kiran''), (''age'', PyInt 20)]])) =
     Inr [Dict [(''name'', PyStr ''Ravi''), (''age'', PyInt 20)],
          Dict [(''name'', PyStr ''Kiran''), (''age'', PyInt 20)],
          Dict [(''name'', PyStr ''Meera''), (''age'', PyInt 25)],
          Dict [(''name'', PyStr ''Asha''), (''age'', PyInt 30)]] \<and>
   fst (sort_patients ''age'' ''desc''
      (Sequence [Dict [(''name'', PyStr ''Asha''), (''age'', PyInt 30)],
                 Dict [(''name'', PyStr ''Ravi''), (''age'', PyInt 20)],
                 Dict [(''name'', PyStr ''Meera''), (''age'', PyInt 25)],
                 Dict [(''name'', PyStr ''Kiran''), (''age'', PyInt 20)]])) =
     Inr [Dict [(''name'', PyStr ''Asha''), (''age'', PyInt 30)],
          Dict [(''name'', PyStr ''Meera''), (''age'', PyInt 25)],
          Dict [(''name'', PyStr ''Ravi''), (''age'', PyInt 20)],
          Dict [(''name'', PyStr ''Kiran''), (''age'', PyInt 20)]]"
  by code_simp

text \<open>A successful delete leaves a dict, on which \<^verbatim>\<open>view_patient\<close> never raises the 404.\<close>

lemma delete_patient_InrD:
  assumes "delete_patient patient_id f = (Inr r, f')"
  shows "\<exists>kvs. load_data f = Mapping kvs \<and> patient_id \<in> fst ` set kvs \<and>
     f' = Mapping (AList.delete patient_id kvs)"
  using assms
  by (auto simp: delete_patient_def Let_def contains_def delitem_def load_data_def save_data_def
      split: if_splits sum.splits store.splits)

lemma get_after_delete_never_not_found:
  assumes "delete_patient k f = (Inr r, f')"
  shows "fst (view_patient n f') \<noteq> Inl (HTTPException 404 ''Patient not found'')"
proof -
  from assms obtain kvs where "f' = Mapping (AList.delete k kvs)"
    using delete_patient_InrD by blast
  then show ?thesis
    by (simp add: view_patient_Mapping)
qed

text \<open>
  C8. Delete followed by get by id on the same id is claimed to end in NotFound.
  After deleting the only record, under id 1, the get returns \<^verbatim>\<open>None\<close>; after
  deleting one record of two it raises \<^verbatim>\<open>TypeError\<close>.
\<close>

theorem get_after_delete_is_not_not_found:
  "delete_patient ''1'' (Mapping [(''1'', Dict asha)]) =
     (Inr (JSONResponse 200 ''Patient deleted successfully!''), Mapping []) \<and>
   fst (view_patient 1 (Mapping [])) = Inr (Scalar PyNone) \<and>
   delete_patient ''1'' (Mapping [(''1'', Dict asha), (''2'', Dict ravi_dumped)]) =
     (Inr (JSONResponse 200 ''Patient deleted successfully!''),
      Mapping [(''2'', Dict ravi_dumped)]) \<and>
   fst (view_patient 1 (Mapping [(''2'', Dict ravi_dumped)])) = Inl TypeError"
  by code_simp

end
